theory Spec2Isabelle
  imports Complex_Main
begin

section \<open>JavaScript values\<close>

text \<open>
  The session service is TypeScript, and its types are erased at run time: the value
  that \<open>restoreSession\<close> reads back is whatever \<open>JSON.parse\<close> returns, cast to
  \<open>AuthSession\<close> without a check. The session is therefore modelled as a JavaScript
  value. The bodies of the two HTTP responses keep their declared types: what the
  issuer and the refresher return is their contract.

  Numbers: \<open>NaN\<close> and the two infinities are values of their own, with the
  arithmetic and the comparisons JavaScript gives them. A finite number is a rational,
  and a sum or a product of finite numbers is the exact one. The source computes in IEEE
  doubles, which give the exact result wherever the operands and the result are integers
  of magnitude at most \<open>2^53\<close>; beyond that doubles round, and overflow to an infinity.
  A statement below that gives the value of a finite sum or product carries this bound.
\<close>

datatype jsnum = Fin rat | NaN | PosInf | NegInf

fun num_neg :: "jsnum \<Rightarrow> jsnum" where
  "num_neg (Fin a) = Fin (- a)"
| "num_neg NaN = NaN"
| "num_neg PosInf = NegInf"
| "num_neg NegInf = PosInf"

fun num_add :: "jsnum \<Rightarrow> jsnum \<Rightarrow> jsnum" where
  "num_add (Fin a) (Fin b) = Fin (a + b)"
| "num_add NaN _ = NaN"
| "num_add _ NaN = NaN"
| "num_add PosInf NegInf = NaN"
| "num_add NegInf PosInf = NaN"
| "num_add PosInf _ = PosInf"
| "num_add _ PosInf = PosInf"
| "num_add NegInf _ = NegInf"
| "num_add _ NegInf = NegInf"

definition num_sub :: "jsnum \<Rightarrow> jsnum \<Rightarrow> jsnum" where
  "num_sub a b = num_add a (num_neg b)"

fun num_sign :: "jsnum \<Rightarrow> int" where
  "num_sign (Fin a) = (if a < 0 then - 1 else if a = 0 then 0 else 1)"
| "num_sign NaN = 0"
| "num_sign PosInf = 1"
| "num_sign NegInf = - 1"

fun num_mul :: "jsnum \<Rightarrow> jsnum \<Rightarrow> jsnum" where
  "num_mul (Fin a) (Fin b) = Fin (a * b)"
| "num_mul NaN _ = NaN"
| "num_mul _ NaN = NaN"
| "num_mul a b =
     (if num_sign a * num_sign b = 0 then NaN
      else if num_sign a * num_sign b < 0 then NegInf else PosInf)"

text \<open>\<open>a > b\<close> and \<open>a <= b\<close> on numbers: both are false when an operand is \<open>NaN\<close>.\<close>

fun num_gt :: "jsnum \<Rightarrow> jsnum \<Rightarrow> bool" where
  "num_gt (Fin a) (Fin b) = (b < a)"
| "num_gt NaN _ = False"
| "num_gt _ NaN = False"
| "num_gt PosInf PosInf = False"
| "num_gt PosInf _ = True"
| "num_gt _ PosInf = False"
| "num_gt NegInf _ = False"
| "num_gt _ NegInf = True"

fun num_le :: "jsnum \<Rightarrow> jsnum \<Rightarrow> bool" where
  "num_le NaN _ = False"
| "num_le _ NaN = False"
| "num_le a b = (\<not> num_gt a b)"

text \<open>
  A string is a list of code units, each below 256 (a \<open>char\<close>).
  \<open>String.prototype.trim\<close> removes white space and line terminators at both ends;
  below 256 these are the code units 9 to 13, 32 and 160.
\<close>

definition is_space :: "char \<Rightarrow> bool" where
  "is_space c = (of_char c \<in> {9, 10, 11, 12, 13, 32, 160 :: nat})"

definition trim :: "string \<Rightarrow> string" where
  "trim s = rev (dropWhile is_space (rev (dropWhile is_space s)))"

datatype jsval =
    Undefined
  | Null
  | Bool bool
  | Num jsnum
  | Str string
  | Arr "jsval list"
  | Obj "(string \<times> jsval) list"

text \<open>\<open>!!v\<close>: the falsy values are undefined, null, false, 0, NaN and the empty string.\<close>

fun truthy :: "jsval \<Rightarrow> bool" where
  "truthy Undefined = False"
| "truthy Null = False"
| "truthy (Bool b) = b"
| "truthy (Num n) = (n \<noteq> Fin 0 \<and> n \<noteq> NaN)"
| "truthy (Str s) = (s \<noteq> [])"
| "truthy (Arr xs) = True"
| "truthy (Obj kvs) = True"

text \<open>
  \<open>v.k\<close> for the four property names of a session. Only an object has such a
  property; on a primitive or an array the read gives undefined. (On null and undefined
  the read would throw; the service reads a property only behind \<open>!current\<close> or
  \<open>?.\<close>, where the value is not nullish.)
\<close>

fun js_get :: "jsval \<Rightarrow> string \<Rightarrow> jsval" where
  "js_get (Obj kvs) k = (case map_of kvs k of None \<Rightarrow> Undefined | Some v \<Rightarrow> v)"
| "js_get _ k = Undefined"

text \<open>
  \<open>ToNumber\<close>, as the operators \<open>-\<close> and \<open><=\<close> and the function \<open>Number\<close>
  apply it. The conversion of a string (and of an array, which goes through its string)
  is the host's \<open>StringToNumber\<close>; it is a parameter \<open>conv\<close> of the model. A plain
  object converts to \<open>"[object Object]"\<close> and so to \<open>NaN\<close>.
\<close>

fun ToNumber :: "(jsval \<Rightarrow> jsnum) \<Rightarrow> jsval \<Rightarrow> jsnum" where
  "ToNumber conv Undefined = NaN"
| "ToNumber conv Null = Fin 0"
| "ToNumber conv (Bool b) = (if b then Fin 1 else Fin 0)"
| "ToNumber conv (Num n) = n"
| "ToNumber conv (Str s) = conv (Str s)"
| "ToNumber conv (Arr xs) = conv (Arr xs)"
| "ToNumber conv (Obj kvs) = NaN"

section \<open>JSON and the storage record\<close>

text \<open>
  \<open>JSON.stringify\<close> and \<open>JSON.parse\<close> belong to the platform. A stored string is
  modelled by what \<open>JSON.parse\<close> makes of it: the empty string, a string that is not
  a JSON text, or the JSON text of a value. \<open>json_of v\<close> is the value that the text
  \<open>JSON.stringify(v)\<close> denotes: a property whose value is undefined is left out, an
  undefined array element becomes null, and \<open>NaN\<close> and the infinities become null.
  A call of \<open>window.localStorage\<close> goes through or throws (a SecurityError where
  the user agent denies access to the store): \<open>access\<close> says which.
\<close>

datatype raw = EmptyString | NotJSON | JSONText jsval

datatype access = Granted | Denied

primrec json_of :: "jsval \<Rightarrow> jsval" where
  "json_of Undefined = Undefined"
| "json_of Null = Null"
| "json_of (Bool b) = Bool b"
| "json_of (Num n) = (case n of Fin a \<Rightarrow> Num (Fin a) | _ \<Rightarrow> Null)"
| "json_of (Str s) = Str s"
| "json_of (Arr xs) = Arr (map (\<lambda>v. if v = Undefined then Null else v) (map json_of xs))"
| "json_of (Obj kvs) =
     Obj (filter (\<lambda>kv. snd kv \<noteq> Undefined) (map (map_prod id json_of) kvs))"

text \<open>
  \<open>JSON.stringify(undefined)\<close> is undefined, which \<open>setItem\<close> would store as the
  string \<open>"undefined"\<close>: not a JSON text.
\<close>

definition JSON_stringify :: "jsval \<Rightarrow> raw" where
  "JSON_stringify v = (if v = Undefined then NotJSON else JSONText (json_of v))"

text \<open>\<open>JSON.parse\<close>; \<open>None\<close> is the SyntaxError it throws.\<close>

fun JSON_parse :: "raw \<Rightarrow> jsval option" where
  "JSON_parse EmptyString = None"
| "JSON_parse NotJSON = None"
| "JSON_parse (JSONText v) = Some v"

section \<open>The authentication service\<close>

record SignInResponse =
  idToken :: string
  email :: string
  refreshToken :: string
  expiresIn :: string

record RefreshResponse =
  id_token :: string
  refresh_token :: string
  expires_in :: string
  user_id :: string

text \<open>
  The two requests the service posts: to \<open>accounts:signInWithPassword\<close> with the key,
  \<open>email\<close>, \<open>password\<close> and \<open>returnSecureToken\<close>, and to \<open>token\<close> with the key,
  \<open>grant_type\<close> and \<open>refresh_token\<close>.
\<close>

datatype request =
    SignInWithPassword string string string bool
  | Token string string jsval

datatype http_error = HttpErrorResponse int

text \<open>
  What a caller can catch: an \<open>Error\<close> the service throws itself, with its message,
  the rejection of the HTTP call, or the exception of a storage call, with its name.
\<close>

datatype error = Error string | Rejected http_error | DOMException string

definition msg_not_authenticated :: string where
  "msg_not_authenticated =
     ''Usu'' @ [CHR 0xE1] @ ''rio n'' @ [CHR 0xE3] @ ''o autenticado.''"

definition msg_api_key :: string where
  "msg_api_key =
     ''Firebase API Key n'' @ [CHR 0xE3] @ ''o configurada no environment.''"

text \<open>
  The surroundings of the service: the configured key (\<open>environment.firebase.apiKey\<close>,
  a string, not configured when empty), the host's \<open>StringToNumber\<close>, and the two
  remote endpoints, each a function from the request to the rejection or the response
  body.
\<close>

record env =
  apiKey :: string
  StringToNumber :: "jsval \<Rightarrow> jsnum"
  post_signIn :: "request \<Rightarrow> http_error + SignInResponse"
  post_token :: "request \<Rightarrow> http_error + RefreshResponse"

text \<open>
  The state: the \<open>session\<close> signal, the window (\<open>None\<close> where
  \<open>typeof window === 'undefined'\<close>, otherwise the item stored under the service's
  key in \<open>localStorage\<close>, \<open>None\<close> for no item), and the requests posted so far.
  An asynchronous method is modelled as running to its end: no other call of the service
  is interleaved while its request is in flight.
\<close>

record world =
  session :: jsval
  window :: "raw option option"
  sent :: "request list"

definition isAuthenticated :: "world \<Rightarrow> bool" where
  "isAuthenticated w = truthy (session w)"

text \<open>\<open>this.session()?.email ?? null\<close>\<close>

definition userEmail :: "world \<Rightarrow> jsval" where
  "userEmail w =
     (let v = (if session w = Null \<or> session w = Undefined then Undefined
               else js_get (session w) ''email'')
      in if v = Null \<or> v = Undefined then Null else v)"

text \<open>The object literal of an \<open>AuthSession\<close>.\<close>

definition AuthSession :: "jsval \<Rightarrow> jsval \<Rightarrow> jsval \<Rightarrow> jsval \<Rightarrow> jsval" where
  "AuthSession e t r x =
     Obj [(''email'', e), (''idToken'', t), (''refreshToken'', r), (''expiresAt'', x)]"

definition assertApiKey :: "env \<Rightarrow> error + unit" where
  "assertApiKey E = (if apiKey E = [] then Inl (Error msg_api_key) else Inr ())"

text \<open>
  \<open>restoreSession\<close>: the read of the store and \<open>JSON.parse\<close> stand in one
  \<open>try\<close>, so a denied store and a string that does not parse both give null.
\<close>

definition restoreSession_on :: "access \<Rightarrow> world \<Rightarrow> jsval" where
  "restoreSession_on a w =
     (case window w of
        None \<Rightarrow> Null
      | Some item \<Rightarrow>
          if a = Denied then Null
          else (case item of
                  None \<Rightarrow> Null
                | Some r \<Rightarrow>
                    if r = EmptyString then Null
                    else (case JSON_parse r of None \<Rightarrow> Null | Some v \<Rightarrow> v)))"

text \<open>
  \<open>persistSession\<close>: the signal is set first; then, with a window, the store is
  called, outside any \<open>try\<close>: where the call throws, the exception leaves
  \<open>persistSession\<close> with the signal set and the stored item as it was.
\<close>

definition persistSession_on :: "access \<Rightarrow> jsval \<Rightarrow> world \<Rightarrow> (error + unit) \<times> world" where
  "persistSession_on a s w =
     (let w1 = w\<lparr>session := s\<rparr> in
      case window w1 of
        None \<Rightarrow> (Inr (), w1)
      | Some item \<Rightarrow>
          if a = Denied then (Inl (DOMException ''SecurityError''), w1)
          else if \<not> truthy s then (Inr (), w1\<lparr>window := Some None\<rparr>)
          else (Inr (), w1\<lparr>window := Some (Some (JSON_stringify s))\<rparr>))"

text \<open>
  With a working store \<open>persistSession\<close> always returns; \<open>restoreSession w\<close> and
  \<open>persistSession s w\<close> are the value read and the state left in that case. The
  methods of the service that follow are modelled with a working store; \<open>logout_on\<close>
  below is \<open>logout\<close> with either store.
\<close>

definition restoreSession :: "world \<Rightarrow> jsval" where
  "restoreSession w = restoreSession_on Granted w"

definition persistSession :: "jsval \<Rightarrow> world \<Rightarrow> world" where
  "persistSession s w = snd (persistSession_on Granted s w)"

definition toSession :: "env \<Rightarrow> int \<Rightarrow> SignInResponse \<Rightarrow> jsval" where
  "toSession E now response =
     AuthSession (Str (email response)) (Str (idToken response))
       (Str (refreshToken response))
       (Num (num_add (Fin (of_int now))
               (num_mul (ToNumber (StringToNumber E) (Str (expiresIn response))) (Fin 1000))))"

text \<open>
  \<open>login\<close>; \<open>now\<close> is what \<open>Date.now()\<close> returns in \<open>toSession\<close>, after the
  response has arrived.
\<close>

definition login :: "env \<Rightarrow> int \<Rightarrow> string \<Rightarrow> string \<Rightarrow> world \<Rightarrow> (error + unit) \<times> world" where
  "login E now em password w =
     (case assertApiKey E of
        Inl e \<Rightarrow> (Inl e, w)
      | Inr _ \<Rightarrow>
          (let body = SignInWithPassword (apiKey E) (trim em) (trim password) True;
               w1 = w\<lparr>sent := sent w @ [body]\<rparr>
           in case post_signIn E body of
                Inl e \<Rightarrow> (Inl (Rejected e), w1)
              | Inr response \<Rightarrow> (Inr (), persistSession (toSession E now response) w1)))"

definition logout_on :: "access \<Rightarrow> world \<Rightarrow> (error + unit) \<times> world" where
  "logout_on a w = persistSession_on a Null (w\<lparr>session := Null\<rparr>)"

definition logout :: "world \<Rightarrow> world" where
  "logout w = snd (logout_on Granted w)"

text \<open>
  \<open>refreshSession\<close>; \<open>later\<close> is what \<open>Date.now()\<close> returns after the response
  has arrived.
\<close>

definition refreshSession :: "env \<Rightarrow> int \<Rightarrow> jsval \<Rightarrow> world \<Rightarrow> (error + jsval) \<times> world" where
  "refreshSession E later current w =
     (case assertApiKey E of
        Inl e \<Rightarrow> (Inl e, w)
      | Inr _ \<Rightarrow>
          (let body = Token (apiKey E) ''refresh_token'' (js_get current ''refreshToken'');
               w1 = w\<lparr>sent := sent w @ [body]\<rparr>
           in case post_token E body of
                Inl e \<Rightarrow> (Inl (Rejected e), w1)
              | Inr response \<Rightarrow>
                  (Inr (AuthSession (js_get current ''email'') (Str (id_token response))
                          (Str (refresh_token response))
                          (Num (num_add (Fin (of_int later))
                                  (num_mul (ToNumber (StringToNumber E) (Str (expires_in response)))
                                     (Fin 1000))))),
                   w1)))"

text \<open>
  \<open>getValidToken\<close>; \<open>now\<close> is \<open>Date.now()\<close> at the expiry check, \<open>later\<close> the one
  inside \<open>refreshSession\<close>.
\<close>

definition getValidToken :: "env \<Rightarrow> int \<Rightarrow> int \<Rightarrow> world \<Rightarrow> (error + jsval) \<times> world" where
  "getValidToken E now later w =
     (let current = session w in
      if \<not> truthy current then (Inl (Error msg_not_authenticated), w)
      else if num_gt (num_sub (ToNumber (StringToNumber E) (js_get current ''expiresAt'')) (Fin 60000))
                (Fin (of_int now))
      then (Inr (js_get current ''idToken''), w)
      else (case refreshSession E later current w of
              (Inl e, w1) \<Rightarrow> (Inl e, w1)
            | (Inr refreshed, w1) \<Rightarrow>
                (Inr (js_get refreshed ''idToken''), persistSession refreshed w1)))"

definition ensureSessionValidity :: "env \<Rightarrow> int \<Rightarrow> int \<Rightarrow> world \<Rightarrow> world" where
  "ensureSessionValidity E now later w =
     (let current = session w in
      if \<not> truthy current then w
      else if num_le (ToNumber (StringToNumber E) (js_get current ''expiresAt'')) (Fin (of_int now))
      then (case refreshSession E later current w of
              (Inr refreshed, w1) \<Rightarrow> persistSession refreshed w1
            | (Inl e, w1) \<Rightarrow> logout w1)
      else w)"

text \<open>
  Construction of the service: the field initialiser sets the signal to
  \<open>restoreSession()\<close>, then the constructor runs \<open>ensureSessionValidity\<close>.
\<close>

definition startup :: "env \<Rightarrow> int \<Rightarrow> int \<Rightarrow> world \<Rightarrow> world" where
  "startup E now later w = ensureSessionValidity E now later (w\<lparr>session := restoreSession w\<rparr>)"

section \<open>Properties of sessions\<close>

text \<open>
  A session has all four fields populated when each holds a value of its declared
  type: three strings and a number.
\<close>

fun is_string :: "jsval \<Rightarrow> bool" where
  "is_string (Str s) = True"
| "is_string _ = False"

fun is_number :: "jsval \<Rightarrow> bool" where
  "is_number (Num n) = True"
| "is_number _ = False"

definition populated :: "jsval \<Rightarrow> bool" where
  "populated s =
     (is_string (js_get s ''email'') \<and> is_string (js_get s ''idToken'') \<and>
      is_string (js_get s ''refreshToken'') \<and> is_number (js_get s ''expiresAt''))"

definition no_partial_session :: "world \<Rightarrow> bool" where
  "no_partial_session w = (isAuthenticated w \<longrightarrow> populated (session w))"

text \<open>The expiry check of \<open>getValidToken\<close> fails: the call takes the refresh path.\<close>

definition stale :: "env \<Rightarrow> int \<Rightarrow> jsval \<Rightarrow> bool" where
  "stale E now s =
     (\<not> num_gt (num_sub (ToNumber (StringToNumber E) (js_get s ''expiresAt'')) (Fin 60000))
          (Fin (of_int now)))"

section \<open>Example surroundings\<close>

text \<open>
  The surroundings of the scenarios: a number parser that agrees with \<open>Number\<close> on
  the two strings the examples give it (\<open>"3600"\<close> and \<open>"soon"\<close>), an issuer that
  accepts the password \<open>secret\<close> for any email and returns that email with the tokens
  \<open>T1\<close> and \<open>R1\<close>, and a refresher that exchanges \<open>R1\<close> for \<open>T2\<close> and \<open>R2\<close>
  and rejects every other refresh token.
\<close>

definition example_parse :: "jsval \<Rightarrow> jsnum" where
  "example_parse v = (if v = Str ''3600'' then Fin 3600 else NaN)"

definition example_issuer :: "request \<Rightarrow> http_error + SignInResponse" where
  "example_issuer req =
     (case req of
        SignInWithPassword k e p b \<Rightarrow>
          if p = ''secret''
          then Inr \<lparr>idToken = ''T1'', email = e, refreshToken = ''R1'', expiresIn = ''3600''\<rparr>
          else Inl (HttpErrorResponse 400)
      | Token k g t \<Rightarrow> Inl (HttpErrorResponse 404))"

definition example_refresher :: "request \<Rightarrow> http_error + RefreshResponse" where
  "example_refresher req =
     (case req of
        SignInWithPassword k e p b \<Rightarrow> Inl (HttpErrorResponse 404)
      | Token k g t \<Rightarrow>
          if t = Str ''R1''
          then Inr \<lparr>id_token = ''T2'', refresh_token = ''R2'', expires_in = ''3600'',
                    user_id = ''u1''\<rparr>
          else Inl (HttpErrorResponse 400))"

definition example_env :: "string \<Rightarrow> env" where
  "example_env k =
     \<lparr>apiKey = k, StringToNumber = example_parse, post_signIn = example_issuer,
      post_token = example_refresher\<rparr>"

definition example_session :: "string \<Rightarrow> jsnum \<Rightarrow> jsval" where
  "example_session r x = AuthSession (Str ''a@b.com'') (Str ''T1'') (Str r) (Num x)"

text \<open>
  A browser whose stored record mirrors the session, and a server-side rendering
  process, which has no window.
\<close>

definition browser_world :: "jsval \<Rightarrow> world" where
  "browser_world s =
     \<lparr>session = s, window = Some (if truthy s then Some (JSON_stringify s) else None),
      sent = []\<rparr>"

definition server_world :: "jsval \<Rightarrow> world" where
  "server_world s = \<lparr>session = s, window = None, sent = []\<rparr>"

section \<open>Auxiliary facts\<close>

lemmas example_defs = example_parse_def example_issuer_def example_refresher_def
  example_env_def example_session_def browser_world_def server_world_def

lemma restoreSession_eq:
  "restoreSession w =
     (case window w of
        None \<Rightarrow> Null
      | Some item \<Rightarrow>
          (case item of
             None \<Rightarrow> Null
           | Some r \<Rightarrow>
               if r = EmptyString then Null
               else (case JSON_parse r of None \<Rightarrow> Null | Some v \<Rightarrow> v)))"
  by (simp add: restoreSession_def restoreSession_on_def split: option.splits)

lemma persistSession_eq:
  "persistSession s w =
     (let w1 = w\<lparr>session := s\<rparr> in
      case window w1 of
        None \<Rightarrow> w1
      | Some item \<Rightarrow>
          if \<not> truthy s then w1\<lparr>window := Some None\<rparr>
          else w1\<lparr>window := Some (Some (JSON_stringify s))\<rparr>)"
  by (simp add: persistSession_def persistSession_on_def Let_def split: option.splits)

lemma persistSession_on_Granted: "persistSession_on Granted s w = (Inr (), persistSession s w)"
  by (simp add: persistSession_def persistSession_on_def Let_def split: option.splits)

lemma logout_plain: "logout w = persistSession Null (w\<lparr>session := Null\<rparr>)"
  by (simp add: logout_def logout_on_def persistSession_def)

lemma logout_on_Granted: "logout_on Granted w = (Inr (), logout w)"
  by (simp add: logout_plain logout_on_def persistSession_on_Granted)

lemma fresh_iff:
  "num_gt (num_sub (Fin e) (Fin 60000)) (Fin (of_int now)) = (of_int now + 60000 < e)"
  by (auto simp: num_sub_def)

lemma elapsed_iff: "num_le (Fin e) (Fin (of_int now)) = (e \<le> of_int now)"
  by auto

lemma refreshSession_no_key:
  "apiKey E = [] \<Longrightarrow> refreshSession E later current w = (Inl (Error msg_api_key), w)"
  by (simp add: refreshSession_def assertApiKey_def)

lemma refreshSession_rejected:
  "apiKey E \<noteq> [] \<Longrightarrow>
   post_token E (Token (apiKey E) ''refresh_token'' (js_get current ''refreshToken'')) = Inl h \<Longrightarrow>
   refreshSession E later current w =
     (Inl (Rejected h),
      w\<lparr>sent := sent w @ [Token (apiKey E) ''refresh_token'' (js_get current ''refreshToken'')]\<rparr>)"
  by (simp add: refreshSession_def assertApiKey_def)

lemma refreshSession_ok:
  "apiKey E \<noteq> [] \<Longrightarrow>
   post_token E (Token (apiKey E) ''refresh_token'' (js_get current ''refreshToken'')) = Inr r \<Longrightarrow>
   refreshSession E later current w =
     (Inr (AuthSession (js_get current ''email'') (Str (id_token r)) (Str (refresh_token r))
            (Num (num_add (Fin (of_int later)) (num_mul (StringToNumber E (Str (expires_in r))) (Fin 1000))))),
      w\<lparr>sent := sent w @ [Token (apiKey E) ''refresh_token'' (js_get current ''refreshToken'')]\<rparr>)"
  by (simp add: refreshSession_def assertApiKey_def)

lemma refreshSession_cases:
  obtains (no_key) "apiKey E = []" "refreshSession E later current w = (Inl (Error msg_api_key), w)"
  | (rejected) h where "apiKey E \<noteq> []"
      "refreshSession E later current w =
         (Inl (Rejected h),
          w\<lparr>sent := sent w @ [Token (apiKey E) ''refresh_token'' (js_get current ''refreshToken'')]\<rparr>)"
  | (ok) r where "apiKey E \<noteq> []"
      "post_token E (Token (apiKey E) ''refresh_token'' (js_get current ''refreshToken'')) = Inr r"
      "refreshSession E later current w =
         (Inr (AuthSession (js_get current ''email'') (Str (id_token r)) (Str (refresh_token r))
            (Num (num_add (Fin (of_int later)) (num_mul (StringToNumber E (Str (expires_in r))) (Fin 1000))))),
          w\<lparr>sent := sent w @ [Token (apiKey E) ''refresh_token'' (js_get current ''refreshToken'')]\<rparr>)"
proof (cases "apiKey E = []")
  case True
  then show ?thesis using no_key refreshSession_no_key by blast
next
  case False
  show ?thesis
  proof (cases "post_token E (Token (apiKey E) ''refresh_token'' (js_get current ''refreshToken''))")
    case (Inl h)
    then show ?thesis using False rejected refreshSession_rejected by blast
  next
    case (Inr r)
    then show ?thesis using False ok refreshSession_ok by blast
  qed
qed

lemma populated_AuthSession:
  "populated (AuthSession e t r x) = (is_string e \<and> is_string t \<and> is_string r \<and> is_number x)"
  by (simp add: populated_def AuthSession_def)

lemma truthy_AuthSession: "truthy (AuthSession e t r x)"
  by (simp add: AuthSession_def)

lemma session_persistSession: "session (persistSession s w) = s"
  by (simp add: persistSession_eq Let_def split: option.splits)

lemma sent_persistSession: "sent (persistSession s w) = sent w"
  by (simp add: persistSession_eq Let_def split: option.splits)

lemma logout_eq:
  "logout w = \<lparr>session = Null, window = (case window w of None \<Rightarrow> None | Some item \<Rightarrow> Some None),
     sent = sent w\<rparr>"
  by (simp add: logout_plain persistSession_eq Let_def split: option.splits)

lemma stale_iff:
  "js_get s ''expiresAt'' = Num (Fin e) \<Longrightarrow> stale E now s = (e \<le> of_int now + 60000)"
  by (auto simp: stale_def fresh_iff)

lemma login_cases:
  obtains (failed) err w' where "login E now em password w = (Inl err, w')" "session w' = session w"
  | (ok) r w' where "login E now em password w = (Inr (), w')"
      "session w' = toSession E now r"
  by (cases "apiKey E = []";
      cases "post_signIn E (SignInWithPassword (apiKey E) (trim em) (trim password) True)")
    (auto simp: login_def assertApiKey_def Let_def session_persistSession)

lemma populated_toSession: "populated (toSession E now r)"
  by (simp add: toSession_def populated_AuthSession)

lemma getValidToken_session:
  "session (snd (getValidToken E now later w)) = session w
   \<or> (\<exists>t r x. session (snd (getValidToken E now later w))
         = AuthSession (js_get (session w) ''email'') (Str t) (Str r) (Num x))"
  by (rule refreshSession_cases [of E later "session w" w])
    (auto simp: getValidToken_def Let_def session_persistSession)

lemma ensureSessionValidity_session:
  "session (ensureSessionValidity E now later w) = session w
   \<or> session (ensureSessionValidity E now later w) = Null
   \<or> (\<exists>t r x. session (ensureSessionValidity E now later w)
         = AuthSession (js_get (session w) ''email'') (Str t) (Str r) (Num x))"
  by (rule refreshSession_cases [of E later "session w" w])
    (auto simp: ensureSessionValidity_def Let_def session_persistSession logout_eq)

lemma populated_refreshed:
  "populated s \<Longrightarrow> populated (AuthSession (js_get s ''email'') (Str t) (Str r) (Num x))"
  by (simp add: populated_def AuthSession_def)

section \<open>The token gate\<close>

text \<open>
  C1, as amended. When the API key is configured, for every session whose
  \<open>expiresAt\<close> is within 60,000 ms of the current time or already passed,
  \<open>getValidToken\<close> sends exactly one refresh request, carrying the stored refresh
  token. When the refresher answers it, the call returns the new access token and the
  session is replaced wholesale: the identifier is kept, the access token and the
  refresh token are those of the response (the rotated refresh token, never the one that
  was sent), and \<open>expiresAt\<close> is a number; where a window exists (and the store takes
  the write) the stored record is overwritten with the new session. For a lifetime that
  is a whole number of seconds, with the product, the clock at the arrival of the
  response and the sum all of magnitude at most \<open>2^53\<close> (where the arithmetic of
  doubles is exact), \<open>expiresAt\<close> is that clock plus \<open>lifetimeSeconds * 1000\<close>.
\<close>

theorem getValidToken_refresh:
  assumes key: "apiKey E \<noteq> []"
    and auth: "isAuthenticated w"
    and exp: "js_get (session w) ''expiresAt'' = Num (Fin e)"
    and within: "e \<le> of_int now + 60000"
  shows "let req = Token (apiKey E) ''refresh_token'' (js_get (session w) ''refreshToken'');
             res = getValidToken E now later w in
     sent (snd res) = sent w @ [req]
     \<and> (\<forall>r. post_token E req = Inr r \<longrightarrow>
          fst res = Inr (Str (id_token r))
          \<and> (\<exists>x. session (snd res) =
                 AuthSession (js_get (session w) ''email'') (Str (id_token r))
                   (Str (refresh_token r)) (Num x))
          \<and> window (snd res) =
                (case window w of None \<Rightarrow> None
                 | Some item \<Rightarrow> Some (Some (JSON_stringify (session (snd res)))))
          \<and> (\<forall>l. StringToNumber E (Str (expires_in r)) = Fin (of_int l)
                  \<and> \<bar>l * 1000\<bar> \<le> 2 ^ 53 \<and> \<bar>later\<bar> \<le> 2 ^ 53
                  \<and> \<bar>later + l * 1000\<bar> \<le> 2 ^ 53 \<longrightarrow>
                (let s = AuthSession (js_get (session w) ''email'') (Str (id_token r))
                           (Str (refresh_token r)) (Num (Fin (of_int (later + l * 1000))))
                 in res =
                      (Inr (Str (id_token r)),
                       \<lparr>session = s,
                        window = (case window w of None \<Rightarrow> None
                                  | Some item \<Rightarrow> Some (Some (JSON_stringify s))),
                        sent = sent w @ [req]\<rparr>))))"
proof -
  let ?req = "Token (apiKey E) ''refresh_token'' (js_get (session w) ''refreshToken'')"
  let ?res = "getValidToken E now later w"
  let ?s = "\<lambda>r x. AuthSession (js_get (session w) ''email'') (Str (id_token r))
      (Str (refresh_token r)) (Num x)"
  let ?x = "\<lambda>r. num_add (Fin (of_int later))
      (num_mul (StringToNumber E (Str (expires_in r))) (Fin 1000))"
  have stale_path: "?res =
      (case refreshSession E later (session w) w of
         (Inl err, w1) \<Rightarrow> (Inl err, w1)
       | (Inr refreshed, w1) \<Rightarrow> (Inr (js_get refreshed ''idToken''), persistSession refreshed w1))"
    using auth exp within by (simp add: getValidToken_def isAuthenticated_def fresh_iff)
  have one: "sent (snd ?res) = sent w @ [?req]"
    by (rule refreshSession_cases [of E later "session w" w])
      (use key in \<open>simp_all add: stale_path sent_persistSession\<close>)
  have ok: "?res =
      (Inr (Str (id_token r)),
       \<lparr>session = ?s r (?x r),
        window = (case window w of None \<Rightarrow> None
                  | Some item \<Rightarrow> Some (Some (JSON_stringify (?s r (?x r))))),
        sent = sent w @ [?req]\<rparr>)"
    if "post_token E ?req = Inr r" for r
    using refreshSession_ok [OF key that, of later w]
    by (simp add: stale_path persistSession_eq Let_def truthy_AuthSession split: option.splits)
      (simp add: AuthSession_def)
  have exact: "?x r = Fin (of_int (later + l * 1000))"
    if "StringToNumber E (Str (expires_in r)) = Fin (of_int l)" for r l
    using that by simp
  have "fst ?res = Inr (Str (id_token r))
      \<and> (\<exists>x. session (snd ?res) = ?s r x)
      \<and> window (snd ?res) =
            (case window w of None \<Rightarrow> None
             | Some item \<Rightarrow> Some (Some (JSON_stringify (session (snd ?res)))))
      \<and> (\<forall>l. StringToNumber E (Str (expires_in r)) = Fin (of_int l)
              \<and> \<bar>l * 1000\<bar> \<le> 2 ^ 53 \<and> \<bar>later\<bar> \<le> 2 ^ 53
              \<and> \<bar>later + l * 1000\<bar> \<le> 2 ^ 53 \<longrightarrow>
            ?res =
              (Inr (Str (id_token r)),
               \<lparr>session = ?s r (Fin (of_int (later + l * 1000))),
                window = (case window w of None \<Rightarrow> None
                          | Some item \<Rightarrow>
                              Some (Some (JSON_stringify (?s r (Fin (of_int (later + l * 1000))))))),
                sent = sent w @ [?req]\<rparr>))"
    if r: "post_token E ?req = Inr r" for r
  proof (intro conjI allI impI)
    show "fst ?res = Inr (Str (id_token r))"
      by (simp add: ok [OF r])
    show "\<exists>x. session (snd ?res) = ?s r x"
      by (rule exI [of _ "?x r"]) (simp add: ok [OF r])
    show "window (snd ?res) =
        (case window w of None \<Rightarrow> None
         | Some item \<Rightarrow> Some (Some (JSON_stringify (session (snd ?res)))))"
      by (cases "window w") (simp_all add: ok [OF r])
  next
    fix l
    assume "StringToNumber E (Str (expires_in r)) = Fin (of_int l)
        \<and> \<bar>l * 1000\<bar> \<le> 2 ^ 53 \<and> \<bar>later\<bar> \<le> 2 ^ 53 \<and> \<bar>later + l * 1000\<bar> \<le> 2 ^ 53"
    then have "?x r = Fin (of_int (later + l * 1000))"
      using exact by blast
    then show "?res =
        (Inr (Str (id_token r)),
         \<lparr>session = ?s r (Fin (of_int (later + l * 1000))),
          window = (case window w of None \<Rightarrow> None
                    | Some item \<Rightarrow>
                        Some (Some (JSON_stringify (?s r (Fin (of_int (later + l * 1000))))))),
          sent = sent w @ [?req]\<rparr>)"
      using ok [OF r] by metis
  qed
  with one show ?thesis
    unfolding Let_def by blast
qed

text \<open>
  The scenario of the specification: the session expired a second ago, the refresher
  exchanges \<open>R1\<close> for \<open>T2\<close> and \<open>R2\<close> with a lifetime of 3600 seconds.
\<close>

theorem getValidToken_refresh_witness:
  "apiKey (example_env ''key'') \<noteq> []
   \<and> isAuthenticated (browser_world (example_session ''R1'' (Fin 1000)))
   \<and> js_get (session (browser_world (example_session ''R1'' (Fin 1000)))) ''expiresAt'' = Num (Fin 1000)
   \<and> (1000 :: rat) \<le> of_int 2000 + 60000
   \<and> post_token (example_env ''key'') (Token ''key'' ''refresh_token'' (Str ''R1''))
       = Inr \<lparr>id_token = ''T2'', refresh_token = ''R2'', expires_in = ''3600'', user_id = ''u1''\<rparr>
   \<and> StringToNumber (example_env ''key'') (Str ''3600'') = Fin (of_int 3600)
   \<and> \<bar>3600 * 1000 :: int\<bar> \<le> 2 ^ 53 \<and> \<bar>2001 :: int\<bar> \<le> 2 ^ 53
   \<and> \<bar>2001 + 3600 * 1000 :: int\<bar> \<le> 2 ^ 53
   \<and> getValidToken (example_env ''key'') 2000 2001 (browser_world (example_session ''R1'' (Fin 1000)))
       = (Inr (Str ''T2''),
          \<lparr>session = AuthSession (Str ''a@b.com'') (Str ''T2'') (Str ''R2'') (Num (Fin 3602001)),
           window = Some (Some (JSONText
             (AuthSession (Str ''a@b.com'') (Str ''T2'') (Str ''R2'') (Num (Fin 3602001))))),
           sent = [Token ''key'' ''refresh_token'' (Str ''R1'')]\<rparr>)"
proof -
  let ?w = "browser_world (example_session ''R1'' (Fin 1000))"
  let ?r = "\<lparr>id_token = ''T2'', refresh_token = ''R2'', expires_in = ''3600'', user_id = ''u1''\<rparr>"
  have hyps: "apiKey (example_env ''key'') \<noteq> []" "isAuthenticated ?w"
    "js_get (session ?w) ''expiresAt'' = Num (Fin 1000)" "(1000 :: rat) \<le> of_int 2000 + 60000"
    by (simp_all add: example_defs isAuthenticated_def AuthSession_def)
  have answer: "post_token (example_env ''key'') (Token ''key'' ''refresh_token'' (Str ''R1'')) = Inr ?r"
    by (simp add: example_defs)
  have lifetime: "StringToNumber (example_env ''key'') (Str ''3600'') = Fin (of_int 3600)"
    by (simp add: example_defs)
  have bounds: "\<bar>3600 * 1000 :: int\<bar> \<le> 2 ^ 53" "\<bar>2001 :: int\<bar> \<le> 2 ^ 53"
    "\<bar>2001 + 3600 * 1000 :: int\<bar> \<le> 2 ^ 53"
    by simp_all
  from getValidToken_refresh [OF hyps, of 2001] answer lifetime bounds
  have "getValidToken (example_env ''key'') 2000 2001 ?w
       = (Inr (Str ''T2''),
          \<lparr>session = AuthSession (Str ''a@b.com'') (Str ''T2'') (Str ''R2'') (Num (Fin 3602001)),
           window = Some (Some (JSONText
             (AuthSession (Str ''a@b.com'') (Str ''T2'') (Str ''R2'') (Num (Fin 3602001))))),
           sent = [Token ''key'' ''refresh_token'' (Str ''R1'')]\<rparr>)"
    by (simp add: example_defs AuthSession_def JSON_stringify_def Let_def)
  with hyps answer lifetime bounds show ?thesis
    by simp
qed

text \<open>
  C1 as first stated asks, for every such session, for exactly one refresh exchange and
  for an updated persisted record. With no API key configured the call fails before any
  request is sent; and in a process without a window a successful refresh stores
  nothing, so that a later load finds no session.
\<close>

theorem getValidToken_refresh_counterexample:
  "isAuthenticated (browser_world (example_session ''R1'' (Fin 1000)))
   \<and> js_get (session (browser_world (example_session ''R1'' (Fin 1000)))) ''expiresAt'' = Num (Fin 1000)
   \<and> (1000 :: rat) \<le> of_int 2000 + 60000
   \<and> getValidToken (example_env []) 2000 2001 (browser_world (example_session ''R1'' (Fin 1000)))
       = (Inl (Error msg_api_key), browser_world (example_session ''R1'' (Fin 1000)))
   \<and> sent (browser_world (example_session ''R1'' (Fin 1000))) = []
   \<and> isAuthenticated (server_world (example_session ''R1'' (Fin 1000)))
   \<and> fst (getValidToken (example_env ''key'') 2000 2001 (server_world (example_session ''R1'' (Fin 1000))))
       = Inr (Str ''T2'')
   \<and> restoreSession (snd (getValidToken (example_env ''key'') 2000 2001
         (server_world (example_session ''R1'' (Fin 1000))))) = Null"
  by (simp add: example_defs isAuthenticated_def AuthSession_def getValidToken_def num_sub_def
      refreshSession_def assertApiKey_def persistSession_eq restoreSession_eq Let_def)

text \<open>
  C2: for every session whose \<open>expiresAt\<close> is more than 60,000 ms in the future,
  \<open>getValidToken\<close> returns the cached access token at once. The state after the call
  is the state before it: no request has been sent, and the session and the stored
  record are unchanged.
\<close>

theorem getValidToken_fresh:
  assumes "isAuthenticated w"
    and "js_get (session w) ''expiresAt'' = Num (Fin e)"
    and "of_int now + 60000 < e"
  shows "getValidToken E now later w = (Inr (js_get (session w) ''idToken''), w)"
  using assms by (simp add: getValidToken_def isAuthenticated_def fresh_iff)

theorem getValidToken_fresh_witness:
  "isAuthenticated (browser_world (example_session ''R1'' (Fin 100000)))
   \<and> js_get (session (browser_world (example_session ''R1'' (Fin 100000)))) ''expiresAt'' = Num (Fin 100000)
   \<and> of_int 2000 + 60000 < (100000 :: rat)
   \<and> getValidToken (example_env ''key'') 2000 2001 (browser_world (example_session ''R1'' (Fin 100000)))
       = (Inr (Str ''T1''), browser_world (example_session ''R1'' (Fin 100000)))"
  using getValidToken_fresh [of "browser_world (example_session ''R1'' (Fin 100000))" 100000 2000
      "example_env ''key''" 2001]
  by (simp add: example_defs isAuthenticated_def AuthSession_def)

text \<open>
  C3: in every authenticated state in which \<open>getValidToken\<close> takes the refresh path,
  a refresh that fails makes \<open>getValidToken\<close> fail with that very error: the missing
  key (no request sent), or the rejection of the one request by the refresher, whatever
  the rejection is. The session and the stored record are then what they were, and the
  caller stays authenticated; and no failure of \<open>getValidToken\<close> whatsoever changes the
  session or the stored record. Forcing a logout is left to the start-up path (C4).
\<close>

theorem getValidToken_refresh_failure:
  assumes auth: "isAuthenticated w"
    and path: "stale E now (session w)"
  shows "(apiKey E = [] \<longrightarrow> getValidToken E now later w = (Inl (Error msg_api_key), w))
    \<and> (\<forall>h. apiKey E \<noteq> []
           \<and> post_token E
                (Token (apiKey E) ''refresh_token'' (js_get (session w) ''refreshToken''))
              = Inl h \<longrightarrow>
         getValidToken E now later w =
           (Inl (Rejected h),
            w\<lparr>sent := sent w @
                 [Token (apiKey E) ''refresh_token'' (js_get (session w) ''refreshToken'')]\<rparr>))
    \<and> (\<forall>err w'. getValidToken E now later w = (Inl err, w') \<longrightarrow>
         session w' = session w \<and> window w' = window w
         \<and> isAuthenticated w' \<and> userEmail w' = userEmail w)"
proof -
  have stale_path: "getValidToken E now later w =
      (case refreshSession E later (session w) w of
         (Inl err, w1) \<Rightarrow> (Inl err, w1)
       | (Inr refreshed, w1) \<Rightarrow> (Inr (js_get refreshed ''idToken''), persistSession refreshed w1))"
    using auth path by (simp add: getValidToken_def isAuthenticated_def stale_def)
  have no_key: "getValidToken E now later w = (Inl (Error msg_api_key), w)" if "apiKey E = []"
    using refreshSession_no_key [OF that, of later "session w" w] by (simp add: stale_path)
  have rejected: "getValidToken E now later w =
      (Inl (Rejected h),
       w\<lparr>sent := sent w @
            [Token (apiKey E) ''refresh_token'' (js_get (session w) ''refreshToken'')]\<rparr>)"
    if "apiKey E \<noteq> []"
      "post_token E (Token (apiKey E) ''refresh_token'' (js_get (session w) ''refreshToken''))
         = Inl h" for h
    using refreshSession_rejected [OF that, of later w] by (simp add: stale_path)
  have kept: "session w' = session w \<and> window w' = window w
      \<and> isAuthenticated w' \<and> userEmail w' = userEmail w"
    if "getValidToken E now later w = (Inl err, w')" for err w'
  proof -
    have "session w' = session w \<and> window w' = window w"
      by (rule refreshSession_cases [of E later "session w" w])
        (use that in \<open>auto simp: stale_path\<close>)
    with auth show ?thesis
      by (simp add: isAuthenticated_def userEmail_def)
  qed
  from no_key rejected kept show ?thesis
    by blast
qed

theorem getValidToken_refresh_failure_witness:
  "isAuthenticated (browser_world (example_session ''R9'' (Fin 1000)))
   \<and> stale (example_env ''key'') 2000 (session (browser_world (example_session ''R9'' (Fin 1000))))
   \<and> apiKey (example_env ''key'') \<noteq> []
   \<and> post_token (example_env ''key'') (Token ''key'' ''refresh_token'' (Str ''R9''))
       = Inl (HttpErrorResponse 400)
   \<and> getValidToken (example_env ''key'') 2000 2001 (browser_world (example_session ''R9'' (Fin 1000)))
       = (Inl (Rejected (HttpErrorResponse 400)),
          (browser_world (example_session ''R9'' (Fin 1000)))
            \<lparr>sent := [Token ''key'' ''refresh_token'' (Str ''R9'')]\<rparr>)
   \<and> apiKey (example_env []) = []
   \<and> stale (example_env []) 2000 (session (browser_world (example_session ''R9'' (Fin 1000))))
   \<and> getValidToken (example_env []) 2000 2001 (browser_world (example_session ''R9'' (Fin 1000)))
       = (Inl (Error msg_api_key), browser_world (example_session ''R9'' (Fin 1000)))"
proof -
  let ?w = "browser_world (example_session ''R9'' (Fin 1000))"
  have auth: "isAuthenticated ?w"
    by (simp add: example_defs isAuthenticated_def AuthSession_def)
  have path: "stale E 2000 (session ?w)" for E
    by (simp add: stale_iff [of _ 1000] example_defs AuthSession_def)
  have key: "apiKey (example_env ''key'') \<noteq> []" "apiKey (example_env []) = []"
    by (simp_all add: example_defs)
  have answer: "post_token (example_env ''key'') (Token ''key'' ''refresh_token'' (Str ''R9''))
       = Inl (HttpErrorResponse 400)"
    by (simp add: example_defs)
  from getValidToken_refresh_failure [OF auth path, of "example_env ''key''" 2001] key(1) answer
  have 1: "getValidToken (example_env ''key'') 2000 2001 ?w
       = (Inl (Rejected (HttpErrorResponse 400)),
          ?w\<lparr>sent := [Token ''key'' ''refresh_token'' (Str ''R9'')]\<rparr>)"
    by (simp add: example_defs AuthSession_def)
  from getValidToken_refresh_failure [OF auth path, of "example_env []" 2001] key(2)
  have 2: "getValidToken (example_env []) 2000 2001 ?w = (Inl (Error msg_api_key), ?w)"
    by blast
  from auth path key answer 1 2 show ?thesis
    by simp
qed

section \<open>Start-up\<close>

text \<open>
  C4: at start-up, a session rehydrated from storage whose \<open>expiresAt\<close> has already
  elapsed triggers exactly one eager refresh attempt: the outcome of the start-up is the
  outcome of one run of \<open>refreshSession\<close> on the rehydrated session (which posts one
  request, or none when the key check stops it). If that refresh fails, the resulting
  state is fully unauthenticated: the session is absent and the stored record is deleted.
\<close>

theorem startup_expired:
  assumes stored: "window w = Some (Some (JSONText v))"
    and present: "truthy v"
    and exp: "js_get v ''expiresAt'' = Num (Fin e)"
    and elapsed: "e \<le> of_int now"
  shows "startup E now later w =
      (case refreshSession E later v (w\<lparr>session := v\<rparr>) of
         (Inr refreshed, w1) \<Rightarrow> persistSession refreshed w1
       | (Inl err, w1) \<Rightarrow> logout w1)
    \<and> sent (startup E now later w) =
        sent w @ (if apiKey E = [] then []
                  else [Token (apiKey E) ''refresh_token'' (js_get v ''refreshToken'')])
    \<and> (isl (fst (refreshSession E later v (w\<lparr>session := v\<rparr>))) \<longrightarrow>
          session (startup E now later w) = Null
          \<and> window (startup E now later w) = Some None
          \<and> \<not> isAuthenticated (startup E now later w)
          \<and> restoreSession (startup E now later w) = Null)"
proof -
  have restored: "restoreSession w = v"
    using stored by (simp add: restoreSession_eq)
  have run: "startup E now later w =
      (case refreshSession E later v (w\<lparr>session := v\<rparr>) of
         (Inr refreshed, w1) \<Rightarrow> persistSession refreshed w1
       | (Inl err, w1) \<Rightarrow> logout w1)"
    using present exp elapsed
    by (simp add: startup_def ensureSessionValidity_def restored elapsed_iff)
  show ?thesis
    by (rule refreshSession_cases [of E later v "w\<lparr>session := v\<rparr>"])
      (simp_all add: run sent_persistSession logout_eq stored isAuthenticated_def
        restoreSession_eq)
qed

theorem startup_expired_witness:
  "window (browser_world (example_session ''R9'' (Fin 1000)))
     = Some (Some (JSONText (example_session ''R9'' (Fin 1000))))
   \<and> truthy (example_session ''R9'' (Fin 1000))
   \<and> js_get (example_session ''R9'' (Fin 1000)) ''expiresAt'' = Num (Fin 1000)
   \<and> (1000 :: rat) \<le> of_int 2000
   \<and> isl (fst (refreshSession (example_env ''key'') 2001 (example_session ''R9'' (Fin 1000))
         ((browser_world (example_session ''R9'' (Fin 1000)))
            \<lparr>session := example_session ''R9'' (Fin 1000)\<rparr>)))
   \<and> startup (example_env ''key'') 2000 2001 (browser_world (example_session ''R9'' (Fin 1000)))
       = \<lparr>session = Null, window = Some None, sent = [Token ''key'' ''refresh_token'' (Str ''R9'')]\<rparr>"
proof -
  have hyps: "window (browser_world (example_session ''R9'' (Fin 1000)))
       = Some (Some (JSONText (example_session ''R9'' (Fin 1000))))"
    "truthy (example_session ''R9'' (Fin 1000))"
    "js_get (example_session ''R9'' (Fin 1000)) ''expiresAt'' = Num (Fin 1000)"
    "(1000 :: rat) \<le> of_int 2000"
    by (simp_all add: example_defs AuthSession_def JSON_stringify_def)
  have failed: "isl (fst (refreshSession (example_env ''key'') 2001 (example_session ''R9'' (Fin 1000))
         ((browser_world (example_session ''R9'' (Fin 1000)))
            \<lparr>session := example_session ''R9'' (Fin 1000)\<rparr>)))"
    by (simp add: refreshSession_def assertApiKey_def example_defs AuthSession_def)
  let ?w = "startup (example_env ''key'') 2000 2001 (browser_world (example_session ''R9'' (Fin 1000)))"
  note th = startup_expired [OF hyps, of "example_env ''key''" 2001]
  from th failed have "session ?w = Null" and "window ?w = Some None"
    by blast+
  moreover from th have "sent ?w = sent (browser_world (example_session ''R9'' (Fin 1000))) @
      (if apiKey (example_env ''key'') = [] then []
       else [Token (apiKey (example_env ''key'')) ''refresh_token''
               (js_get (example_session ''R9'' (Fin 1000)) ''refreshToken'')])"
    by blast
  then have "sent ?w = [Token ''key'' ''refresh_token'' (Str ''R9'')]"
    by (simp add: example_defs AuthSession_def)
  ultimately have "?w = \<lparr>session = Null, window = Some None,
      sent = [Token ''key'' ''refresh_token'' (Str ''R9'')]\<rparr>"
    by (cases ?w) simp
  with hyps failed show ?thesis by simp
qed

section \<open>No session\<close>

text \<open>
  C5: whenever no session exists, \<open>getValidToken\<close> fails with the not-authenticated
  error at once. The state after the call is the state before it, so no request has
  been sent and nothing has changed.
\<close>

theorem getValidToken_no_session:
  assumes "\<not> isAuthenticated w"
  shows "getValidToken E now later w = (Inl (Error msg_not_authenticated), w)"
  using assms by (simp add: getValidToken_def isAuthenticated_def)

theorem getValidToken_no_session_witness:
  "\<not> isAuthenticated (browser_world Null)
   \<and> getValidToken (example_env ''key'') 2000 2001 (browser_world Null)
       = (Inl (Error msg_not_authenticated), \<lparr>session = Null, window = Some None, sent = []\<rparr>)"
  using getValidToken_no_session [of "browser_world Null" "example_env ''key''" 2000 2001]
  by (simp add: example_defs isAuthenticated_def)

section \<open>Login\<close>

text \<open>
  C6, as amended. After a successful \<open>login(identifier, secret)\<close> the observable
  \<open>isAuthenticated\<close> is true and \<open>userEmail\<close> is the email of the issuer's response
  to the trimmed credentials; for an issuer that returns the email it was sent, that is
  the submitted identifier with the white space at both ends removed.
\<close>

theorem login_success:
  assumes "login E now em password w = (Inr (), w')"
  shows "isAuthenticated w'
    \<and> (\<exists>r. post_signIn E (SignInWithPassword (apiKey E) (trim em) (trim password) True) = Inr r
           \<and> userEmail w' = Str (email r)
           \<and> (email r = trim em \<longrightarrow> userEmail w' = Str (trim em)))"
  using assms
  by (auto simp: login_def assertApiKey_def Let_def isAuthenticated_def userEmail_def
      toSession_def session_persistSession AuthSession_def split: if_splits sum.splits)

theorem login_success_witness:
  "login (example_env ''key'') 1000 '' a@b.com '' ''secret'' (browser_world Null)
     = (Inr (),
        \<lparr>session = AuthSession (Str ''a@b.com'') (Str ''T1'') (Str ''R1'') (Num (Fin 3601000)),
         window = Some (Some (JSONText
           (AuthSession (Str ''a@b.com'') (Str ''T1'') (Str ''R1'') (Num (Fin 3601000))))),
         sent = [SignInWithPassword ''key'' ''a@b.com'' ''secret'' True]\<rparr>)
   \<and> isAuthenticated
        \<lparr>session = AuthSession (Str ''a@b.com'') (Str ''T1'') (Str ''R1'') (Num (Fin 3601000)),
         window = Some (Some (JSONText
           (AuthSession (Str ''a@b.com'') (Str ''T1'') (Str ''R1'') (Num (Fin 3601000))))),
         sent = [SignInWithPassword ''key'' ''a@b.com'' ''secret'' True]\<rparr>
   \<and> userEmail
        \<lparr>session = AuthSession (Str ''a@b.com'') (Str ''T1'') (Str ''R1'') (Num (Fin 3601000)),
         window = Some (Some (JSONText
           (AuthSession (Str ''a@b.com'') (Str ''T1'') (Str ''R1'') (Num (Fin 3601000))))),
         sent = [SignInWithPassword ''key'' ''a@b.com'' ''secret'' True]\<rparr>
       = Str ''a@b.com''"
proof -
  have run: "login (example_env ''key'') 1000 '' a@b.com '' ''secret'' (browser_world Null)
     = (Inr (),
        \<lparr>session = AuthSession (Str ''a@b.com'') (Str ''T1'') (Str ''R1'') (Num (Fin 3601000)),
         window = Some (Some (JSONText
           (AuthSession (Str ''a@b.com'') (Str ''T1'') (Str ''R1'') (Num (Fin 3601000))))),
         sent = [SignInWithPassword ''key'' ''a@b.com'' ''secret'' True]\<rparr>)"
    by (simp add: login_def assertApiKey_def example_defs trim_def is_space_def toSession_def
        persistSession_eq AuthSession_def JSON_stringify_def Let_def)
  from login_success [OF run] run show ?thesis
    by (simp add: example_defs trim_def is_space_def)
qed

text \<open>
  C6 as first stated asks for the submitted identifier itself. The issuer of the
  example accepts the identifier with its leading blank and would return it unchanged,
  but \<open>login\<close> sends the trimmed identifier, and the user email is the trimmed one.
\<close>

theorem login_success_counterexample:
  "example_issuer (SignInWithPassword ''key'' '' a@b.com'' ''secret'' True)
     = Inr \<lparr>idToken = ''T1'', email = '' a@b.com'', refreshToken = ''R1'', expiresIn = ''3600''\<rparr>
   \<and> fst (login (example_env ''key'') 1000 '' a@b.com'' ''secret'' (browser_world Null)) = Inr ()
   \<and> isAuthenticated (snd (login (example_env ''key'') 1000 '' a@b.com'' ''secret'' (browser_world Null)))
   \<and> userEmail (snd (login (example_env ''key'') 1000 '' a@b.com'' ''secret'' (browser_world Null)))
       = Str ''a@b.com''
   \<and> userEmail (snd (login (example_env ''key'') 1000 '' a@b.com'' ''secret'' (browser_world Null)))
       \<noteq> Str '' a@b.com''"
  by (simp add: login_def assertApiKey_def example_defs trim_def is_space_def toSession_def
      persistSession_eq AuthSession_def JSON_stringify_def Let_def isAuthenticated_def
      userEmail_def)

section \<open>Partial sessions\<close>

text \<open>
  C7, as amended. A session created by \<open>login\<close> has all four fields populated, and
  \<open>login\<close>, \<open>getValidToken\<close> (a refresh keeps the identifier of the session it
  replaces) and \<open>logout\<close> never turn a state without a partial session into one with
  a partial session. Rehydration does not validate: the session read at start-up is the
  stored JSON value as it is, so the state after start-up has no partial session
  provided the stored record, if it yields a session, has all four fields.
\<close>

theorem sessions_populated:
  "(\<forall>w'. login E now em password w = (Inr (), w') \<longrightarrow> populated (session w'))
   \<and> (no_partial_session w \<longrightarrow> no_partial_session (snd (login E now em password w)))
   \<and> (no_partial_session w \<longrightarrow> no_partial_session (snd (getValidToken E now later w)))
   \<and> no_partial_session (logout w)
   \<and> (\<forall>v. window w = Some (Some (JSONText v)) \<longrightarrow> restoreSession w = v)
   \<and> ((truthy (restoreSession w) \<longrightarrow> populated (restoreSession w)) \<longrightarrow>
        no_partial_session (startup E now later w))"
proof -
  have 1: "populated (session w')" if "login E now em password w = (Inr (), w')" for w'
    by (rule login_cases [of E now em password w]) (use that in \<open>auto simp: populated_toSession\<close>)
  have 2: "no_partial_session (snd (login E now em password w))" if "no_partial_session w"
    by (rule login_cases [of E now em password w])
      (use that in \<open>auto simp: no_partial_session_def isAuthenticated_def populated_toSession\<close>)
  have 3: "no_partial_session (snd (getValidToken E now later w))" if "no_partial_session w"
  proof (cases "isAuthenticated w")
    case True
    with that have "populated (session w)" by (simp add: no_partial_session_def)
    with getValidToken_session [of E now later w] show ?thesis
      by (auto simp: no_partial_session_def populated_refreshed)
  next
    case False
    then show ?thesis
      by (simp add: getValidToken_def isAuthenticated_def no_partial_session_def)
  qed
  have 4: "no_partial_session (logout w)"
    by (simp add: logout_eq no_partial_session_def isAuthenticated_def)
  have 5: "restoreSession w = v" if "window w = Some (Some (JSONText v))" for v
    using that by (simp add: restoreSession_eq)
  have 6: "no_partial_session (startup E now later w)"
    if "truthy (restoreSession w) \<longrightarrow> populated (restoreSession w)"
  proof (cases "truthy (restoreSession w)")
    case True
    with that have "populated (restoreSession w)" by simp
    with ensureSessionValidity_session [of E now later "w\<lparr>session := restoreSession w\<rparr>"]
    show ?thesis
      by (auto simp: startup_def no_partial_session_def isAuthenticated_def populated_refreshed)
  next
    case False
    then show ?thesis
      by (simp add: startup_def ensureSessionValidity_def no_partial_session_def
          isAuthenticated_def)
  qed
  from 1 2 3 4 5 6 show ?thesis by blast
qed

theorem sessions_populated_witness:
  "login (example_env ''key'') 1000 ''a@b.com'' ''secret'' (browser_world Null)
     = (Inr (), (browser_world (example_session ''R1'' (Fin 3601000)))
                  \<lparr>sent := [SignInWithPassword ''key'' ''a@b.com'' ''secret'' True]\<rparr>)
   \<and> populated (example_session ''R1'' (Fin 3601000))
   \<and> no_partial_session (browser_world (example_session ''R1'' (Fin 1000)))
   \<and> no_partial_session (snd (getValidToken (example_env ''key'') 2000 2001
        (browser_world (example_session ''R1'' (Fin 1000)))))
   \<and> window (browser_world (example_session ''R1'' (Fin 1000)))
       = Some (Some (JSONText (example_session ''R1'' (Fin 1000))))
   \<and> restoreSession (browser_world (example_session ''R1'' (Fin 1000)))
       = example_session ''R1'' (Fin 1000)
   \<and> no_partial_session (startup (example_env ''key'') 2000 2001
        (browser_world (example_session ''R1'' (Fin 1000))))"
proof -
  let ?w = "browser_world (example_session ''R1'' (Fin 1000))"
  note th = sessions_populated [where E = "example_env ''key''" and w = ?w and now = 2000
      and later = 2001]
  have run: "login (example_env ''key'') 1000 ''a@b.com'' ''secret'' (browser_world Null)
     = (Inr (), (browser_world (example_session ''R1'' (Fin 3601000)))
                  \<lparr>sent := [SignInWithPassword ''key'' ''a@b.com'' ''secret'' True]\<rparr>)"
    by (simp add: login_def assertApiKey_def example_defs trim_def is_space_def toSession_def
        persistSession_eq AuthSession_def JSON_stringify_def Let_def)
  from sessions_populated [where E = "example_env ''key''" and now = 1000
      and em = "''a@b.com''" and password = "''secret''" and w = "browser_world Null"] run
  have p: "populated (example_session ''R1'' (Fin 3601000))"
    by (simp add: browser_world_def)
  have stored: "window ?w = Some (Some (JSONText (example_session ''R1'' (Fin 1000))))"
    by (simp add: example_defs AuthSession_def JSON_stringify_def)
  have pop: "populated (example_session ''R1'' (Fin 1000))"
    by (simp add: example_session_def populated_AuthSession)
  have inv: "no_partial_session ?w"
    using pop by (simp add: no_partial_session_def browser_world_def)
  from th stored have restored: "restoreSession ?w = example_session ''R1'' (Fin 1000)"
    by blast
  from th inv have a: "no_partial_session (snd (getValidToken (example_env ''key'') 2000 2001 ?w))"
    by blast
  from th restored pop have b: "no_partial_session (startup (example_env ''key'') 2000 2001 ?w)"
    by simp
  from run p inv a stored restored b show ?thesis by simp
qed

text \<open>
  C7 as first stated covers every rehydrated session. A stored record that holds only an
  email is rehydrated as it is: the user counts as authenticated, and the session has
  no tokens and no expiry.
\<close>

theorem sessions_populated_counterexample:
  "isAuthenticated (startup (example_env ''key'') 2000 2001
      \<lparr>session = Null, window = Some (Some (JSONText (Obj [(''email'', Str ''a@b.com'')]))),
       sent = []\<rparr>)
   \<and> session (startup (example_env ''key'') 2000 2001
      \<lparr>session = Null, window = Some (Some (JSONText (Obj [(''email'', Str ''a@b.com'')]))),
       sent = []\<rparr>) = Obj [(''email'', Str ''a@b.com'')]
   \<and> js_get (Obj [(''email'', Str ''a@b.com'')]) ''idToken'' = Undefined
   \<and> js_get (Obj [(''email'', Str ''a@b.com'')]) ''refreshToken'' = Undefined
   \<and> js_get (Obj [(''email'', Str ''a@b.com'')]) ''expiresAt'' = Undefined
   \<and> \<not> populated (Obj [(''email'', Str ''a@b.com'')])"
  by (simp add: startup_def ensureSessionValidity_def restoreSession_eq isAuthenticated_def
      populated_def example_defs Let_def)

section \<open>Persistence\<close>

text \<open>
  C8, as amended. Where a window exists, for every session whose \<open>expiresAt\<close> is a
  finite number, \<open>save(session)\<close> followed by \<open>load()\<close> yields a session equal in
  all four fields to the original.
\<close>

theorem persist_restore:
  assumes "window w = Some item"
  shows "restoreSession (persistSession (AuthSession (Str e) (Str t) (Str r) (Num (Fin x))) w)
    = AuthSession (Str e) (Str t) (Str r) (Num (Fin x))"
  using assms
  by (simp add: restoreSession_eq persistSession_eq Let_def truthy_AuthSession
      JSON_stringify_def)
    (simp add: AuthSession_def)

theorem persist_restore_witness:
  "window (browser_world Null) = Some None
   \<and> restoreSession (persistSession (example_session ''R1'' (Fin 1000)) (browser_world Null))
       = example_session ''R1'' (Fin 1000)"
  using persist_restore [where w = "browser_world Null" and item = None and e = "''a@b.com''"
      and t = "''T1''" and r = "''R1''" and x = 1000]
  by (simp add: example_defs)

text \<open>
  C8 as first stated covers every session. Without a window nothing is stored and the
  load yields no session. And a session whose \<open>expiresAt\<close> is \<open>NaN\<close> (which
  \<open>toSession\<close> builds when the lifetime is not a numeric string) is written with a
  null expiry, which is what the load returns.
\<close>

theorem persist_restore_counterexample:
  "restoreSession (persistSession (example_session ''R1'' (Fin 1000)) (server_world Null)) = Null
   \<and> example_session ''R1'' (Fin 1000) \<noteq> Null
   \<and> toSession (example_env ''key'') 1000
        \<lparr>idToken = ''T1'', email = ''a@b.com'', refreshToken = ''R1'', expiresIn = ''soon''\<rparr>
       = example_session ''R1'' NaN
   \<and> js_get (example_session ''R1'' NaN) ''expiresAt'' = Num NaN
   \<and> js_get (restoreSession (persistSession (example_session ''R1'' NaN) (browser_world Null)))
        ''expiresAt'' = Null"
  by (simp add: restoreSession_eq persistSession_eq Let_def JSON_stringify_def AuthSession_def
      toSession_def example_defs)

section \<open>Logout\<close>

text \<open>
  C9, as amended. From every state, and whatever the store does, \<open>logout\<close> clears the
  in-memory session and posts no request: afterwards \<open>isAuthenticated\<close> is false and
  \<open>getValidToken\<close> fails with the not-authenticated error. Where there is no window,
  or the calls of the store go through, \<open>logout\<close> returns; where they go through it
  removes the stored record, so that a later load finds nothing. It changes nothing when
  there is neither a session nor a stored record.
\<close>

theorem logout_clears:
  "session (snd (logout_on a w)) = Null
   \<and> sent (snd (logout_on a w)) = sent w
   \<and> \<not> isAuthenticated (snd (logout_on a w))
   \<and> userEmail (snd (logout_on a w)) = Null
   \<and> getValidToken E now later (snd (logout_on a w))
       = (Inl (Error msg_not_authenticated), snd (logout_on a w))
   \<and> (a = Granted \<or> window w = None \<longrightarrow> fst (logout_on a w) = Inr ())
   \<and> (a = Granted \<longrightarrow>
         window (snd (logout_on a w)) = (case window w of None \<Rightarrow> None | Some item \<Rightarrow> Some None)
         \<and> restoreSession (snd (logout_on a w)) = Null)
   \<and> (session w = Null \<and> (window w = None \<or> (a = Granted \<and> window w = Some None)) \<longrightarrow>
         logout_on a w = (Inr (), w))"
proof -
  have run: "logout_on b w =
      (case window w of
         None \<Rightarrow> (Inr (), w\<lparr>session := Null\<rparr>)
       | Some item \<Rightarrow>
           if b = Denied then (Inl (DOMException ''SecurityError''), w\<lparr>session := Null\<rparr>)
           else (Inr (), w\<lparr>session := Null, window := Some None\<rparr>))" for b
    by (simp add: logout_on_def persistSession_on_def Let_def split: option.splits)
  have clears: "session (snd (logout_on a w)) = Null" "sent (snd (logout_on a w)) = sent w"
    by (simp_all add: run split: option.splits)
  then have out: "\<not> isAuthenticated (snd (logout_on a w))" "userEmail (snd (logout_on a w)) = Null"
    by (simp_all add: isAuthenticated_def userEmail_def)
  have gate: "getValidToken E now later (snd (logout_on a w))
      = (Inl (Error msg_not_authenticated), snd (logout_on a w))"
    using out(1) by (simp add: getValidToken_def isAuthenticated_def)
  have returns: "fst (logout_on a w) = Inr ()" if "a = Granted \<or> window w = None"
    using that by (auto simp: run split: option.splits)
  have removes: "window (snd (logout_on a w)) = (case window w of None \<Rightarrow> None | Some item \<Rightarrow> Some None)
      \<and> restoreSession (snd (logout_on a w)) = Null" if "a = Granted"
    using that by (cases "window w") (simp_all add: run restoreSession_eq)
  have noop: "logout_on a w = (Inr (), w)"
    if "session w = Null" "window w = None \<or> (a = Granted \<and> window w = Some None)"
    using that by (cases w) (auto simp: logout_on_def persistSession_on_def Let_def)
  from clears out gate returns removes noop show ?thesis
    by blast
qed

theorem logout_clears_witness:
  "logout_on Granted (browser_world (example_session ''R1'' (Fin 1000)))
     = (Inr (), \<lparr>session = Null, window = Some None, sent = []\<rparr>)
   \<and> restoreSession \<lparr>session = Null, window = Some None, sent = []\<rparr> = Null
   \<and> session (browser_world Null) = Null
   \<and> window (browser_world Null) = Some None
   \<and> logout_on Granted (browser_world Null) = (Inr (), browser_world Null)"
proof -
  note th1 = logout_clears [where a = Granted and w = "browser_world (example_session ''R1'' (Fin 1000))"
      and E = "example_env ''key''" and now = 2000 and later = 2001]
  note th2 = logout_clears [where a = Granted and w = "browser_world Null"
      and E = "example_env ''key''" and now = 2000 and later = 2001]
  let ?w = "logout_on Granted (browser_world (example_session ''R1'' (Fin 1000)))"
  from th1 have "fst ?w = Inr ()" "session (snd ?w) = Null" "sent (snd ?w) = []"
    "window (snd ?w) = Some None"
    by (simp_all add: example_defs AuthSession_def)
  then have 1: "?w = (Inr (), \<lparr>session = Null, window = Some None, sent = []\<rparr>)"
    by (cases ?w; cases "snd ?w") auto
  from th1 1 have 2: "restoreSession \<lparr>session = Null, window = Some None, sent = []\<rparr> = Null"
    by simp
  have empty: "session (browser_world Null) = Null" "window (browser_world Null) = Some None"
    by (simp_all add: example_defs)
  with th2 have 3: "logout_on Granted (browser_world Null) = (Inr (), browser_world Null)"
    by blast
  from 1 2 empty 3 show ?thesis
    by simp
qed

text \<open>
  C9 as first stated has \<open>logout\<close> change nothing in every unauthenticated state, and
  never fail. A corrupt stored record leaves start-up unauthenticated, and \<open>logout\<close>
  then removes that record; a stored \<open>0\<close> is rehydrated as a falsy session, which
  \<open>logout\<close> replaces by null. And where the store denies access, \<open>logout\<close> throws
  out of \<open>persistSession\<close>, which has no \<open>try\<close>: the stored record stays.
\<close>

theorem logout_clears_counterexample:
  "startup (example_env ''key'') 2000 2001 \<lparr>session = Null, window = Some (Some NotJSON), sent = []\<rparr>
     = \<lparr>session = Null, window = Some (Some NotJSON), sent = []\<rparr>
   \<and> \<not> isAuthenticated \<lparr>session = Null, window = Some (Some NotJSON), sent = []\<rparr>
   \<and> logout_on Granted \<lparr>session = Null, window = Some (Some NotJSON), sent = []\<rparr>
       = (Inr (), \<lparr>session = Null, window = Some None, sent = []\<rparr>)
   \<and> session (startup (example_env ''key'') 2000 2001
        \<lparr>session = Null, window = Some (Some (JSONText (Num (Fin 0)))), sent = []\<rparr>) = Num (Fin 0)
   \<and> \<not> isAuthenticated \<lparr>session = Num (Fin 0), window = Some (Some (JSONText (Num (Fin 0)))), sent = []\<rparr>
   \<and> session (snd (logout_on Granted
        \<lparr>session = Num (Fin 0), window = Some (Some (JSONText (Num (Fin 0)))), sent = []\<rparr>)) = Null
   \<and> fst (logout_on Denied (browser_world (example_session ''R1'' (Fin 1000))))
       = Inl (DOMException ''SecurityError'')
   \<and> window (snd (logout_on Denied (browser_world (example_session ''R1'' (Fin 1000)))))
       = window (browser_world (example_session ''R1'' (Fin 1000)))
   \<and> window (browser_world (example_session ''R1'' (Fin 1000)))
       = Some (Some (JSONText (example_session ''R1'' (Fin 1000))))"
  by (simp add: startup_def ensureSessionValidity_def restoreSession_eq isAuthenticated_def
      logout_on_def persistSession_on_def example_defs AuthSession_def JSON_stringify_def Let_def)

section \<open>Missing API key\<close>

text \<open>
  C10: if the API key is not configured, \<open>login\<close> always fails, and
  \<open>getValidToken\<close> on its refresh path always fails, with the configuration error
  whose message is \<open>msg_api_key\<close>; the state after the call is the state before it,
  so no request has been sent and the session is unchanged. The error is neither the
  not-authenticated error nor the rejection of an HTTP call.
\<close>

theorem api_key_not_configured:
  assumes "apiKey E = []"
  shows "login E now em password w = (Inl (Error msg_api_key), w)
    \<and> (isAuthenticated w \<and> stale E now (session w) \<longrightarrow>
         getValidToken E now later w = (Inl (Error msg_api_key), w))
    \<and> (\<forall>e. isAuthenticated w \<and> js_get (session w) ''expiresAt'' = Num (Fin e)
           \<and> e \<le> of_int now + 60000 \<longrightarrow>
         getValidToken E now later w = (Inl (Error msg_api_key), w))
    \<and> Error msg_api_key \<noteq> Error msg_not_authenticated
    \<and> (\<forall>h. Error msg_api_key \<noteq> Rejected h)"
proof -
  have 1: "login E now em password w = (Inl (Error msg_api_key), w)"
    using assms by (simp add: login_def assertApiKey_def)
  have 2: "getValidToken E now later w = (Inl (Error msg_api_key), w)"
    if "isAuthenticated w" "stale E now (session w)"
    using that refreshSession_no_key [OF assms, of later "session w" w]
    by (simp add: getValidToken_def isAuthenticated_def stale_def)
  have 3: "Error msg_api_key \<noteq> Error msg_not_authenticated"
    by (simp add: msg_api_key_def msg_not_authenticated_def)
  from 1 2 3 show ?thesis
    by (auto simp: stale_iff)
qed

theorem api_key_not_configured_witness:
  "apiKey (example_env []) = []
   \<and> login (example_env []) 1000 ''a@b.com'' ''secret'' (browser_world Null)
       = (Inl (Error msg_api_key), browser_world Null)
   \<and> isAuthenticated (browser_world (example_session ''R1'' (Fin 1000)))
   \<and> stale (example_env []) 2000 (session (browser_world (example_session ''R1'' (Fin 1000))))
   \<and> getValidToken (example_env []) 2000 2001 (browser_world (example_session ''R1'' (Fin 1000)))
       = (Inl (Error msg_api_key), browser_world (example_session ''R1'' (Fin 1000)))"
proof -
  have key: "apiKey (example_env []) = []"
    by (simp add: example_env_def)
  have auth: "isAuthenticated (browser_world (example_session ''R1'' (Fin 1000)))"
    by (simp add: example_defs isAuthenticated_def AuthSession_def)
  have st: "stale (example_env []) 2000 (session (browser_world (example_session ''R1'' (Fin 1000))))"
    by (simp add: stale_iff [of _ 1000] example_defs AuthSession_def)
  from api_key_not_configured [OF key, where now = 1000 and em = "''a@b.com''"
      and password = "''secret''" and w = "browser_world Null"]
    api_key_not_configured [OF key, where w = "browser_world (example_session ''R1'' (Fin 1000))"
      and now = 2000 and later = 2001]
    key auth st
  show ?thesis by simp
qed

end
